theory Spec2Isabelle
  imports Main
begin

section \<open>JavaScript values\<close>

text \<open>
  The server handles untyped JavaScript data: \<open>req.body\<close> is whatever the JSON body parser
  produced, a failure is whatever value was thrown, and the envelope is an object literal.
  \<open>jsval\<close> is the fragment of JavaScript values the code touches. \<open>JUndefined\<close> is a value
  of its own: a property can hold it. Numbers are restricted to integers (the codes of the
  protocol), so \<open>NaN\<close> and fractions are outside the model. An object is its list of
  properties in insertion order; a key is looked up at its first occurrence.
\<close>

datatype jsval =
    JUndefined
  | JNull
  | JBool bool
  | JNum int
  | JStr string
  | JArr "jsval list"
  | JObj "(string \<times> jsval) list"

text \<open>Truthiness, as the operator \<open>||\<close> tests it.\<close>

fun truthy :: "jsval \<Rightarrow> bool" where
  "truthy JUndefined = False"
| "truthy JNull = False"
| "truthy (JBool b) = b"
| "truthy (JNum n) = (n \<noteq> 0)"
| "truthy (JStr s) = (s \<noteq> [])"
| "truthy (JArr xs) = True"
| "truthy (JObj kvs) = True"

text \<open>\<open>a || b\<close>: the left operand when it is truthy, the right one otherwise.\<close>

definition js_or :: "jsval \<Rightarrow> jsval \<Rightarrow> jsval" where
  "js_or a b = (if truthy a then a else b)"

fun nullish :: "jsval \<Rightarrow> bool" where
  "nullish JUndefined = True"
| "nullish JNull = True"
| "nullish v = False"

definition TypeError :: "string \<Rightarrow> jsval" where
  "TypeError msg = JObj [(''name'', JStr ''TypeError''), (''message'', JStr msg)]"

text \<open>
  Property access \<open>v.k\<close>. Reading a property of \<open>undefined\<close> or \<open>null\<close> throws a
  TypeError (\<open>Inl\<close>). An object yields the property's value, or \<open>undefined\<close> when it has
  no such property. Primitives and arrays have none of the properties the server reads
  (\<open>code\<close>, \<open>data\<close>, \<open>message\<close>), so they yield \<open>undefined\<close>.
\<close>

fun member :: "jsval \<Rightarrow> string \<Rightarrow> jsval + jsval" where
  "member JUndefined k = Inl (TypeError (''Cannot read properties of undefined (reading '' @ k @ '')''))"
| "member JNull k = Inl (TypeError (''Cannot read properties of null (reading '' @ k @ '')''))"
| "member (JObj kvs) k = Inr (case map_of kvs k of Some v \<Rightarrow> v | None \<Rightarrow> JUndefined)"
| "member v k = Inr JUndefined"

text \<open>The operator \<open>k in v\<close> on an object: the property exists, whatever it holds.\<close>

fun has_key :: "jsval \<Rightarrow> string \<Rightarrow> bool" where
  "has_key (JObj kvs) k = (k \<in> set (map fst kvs))"
| "has_key v k = False"

text \<open>
  What \<open>res.json(body)\<close> puts on the wire is \<open>JSON.stringify(body)\<close>: a property whose
  value is \<open>undefined\<close> is left out of its object, and an \<open>undefined\<close> array element is
  written as \<open>null\<close>. \<open>json_wire\<close> is the value a client parses back.
\<close>

fun json_wire :: "jsval \<Rightarrow> jsval" where
  "json_wire (JArr xs) = JArr (map (\<lambda>x. if x = JUndefined then JNull else json_wire x) xs)"
| "json_wire (JObj kvs) =
     JObj (map (\<lambda>kv. (fst kv, json_wire (snd kv))) (filter (\<lambda>kv. snd kv \<noteq> JUndefined) kvs))"
| "json_wire v = v"

text \<open>
  A value that JSON can carry: \<open>undefined\<close> occurs nowhere in it. Whatever the body
  parser hands over as \<open>req.body.id\<close>, when the body has an \<open>id\<close>, is such a value.
\<close>

fun is_json :: "jsval \<Rightarrow> bool" where
  "is_json JUndefined = False"
| "is_json (JArr xs) = list_all is_json xs"
| "is_json (JObj kvs) = list_all (\<lambda>kv. is_json (snd kv)) kvs"
| "is_json v = True"

section \<open>Promises and observables\<close>

text \<open>
  The state in which an awaited promise ends: fulfilled with a value, rejected with the
  thrown value, or never settled (\<open>Pending\<close>), in which case the \<open>await\<close> never returns.
\<close>

datatype 'a promise = Fulfilled 'a | Rejected jsval | Pending

text \<open>
  An observable, as far as \<open>toPromise\<close> can see it: the values it emits and how it ends.
\<close>

datatype obs_end = Completes | Errors jsval | NeverEnds

datatype observable = Observable "jsval list" obs_end

text \<open>
  What a handler's promise resolves to: a plain value or an observable (a promise is
  already flattened by the \<open>await\<close>).
\<close>

datatype resolved = Plain jsval | Obs observable

text \<open>
  \<open>Server.transformToObservable\<close> of the framework: an observable is passed through,
  any other value \<open>v\<close> becomes \<open>of(v)\<close>.
\<close>

fun transformToObservable :: "resolved \<Rightarrow> observable" where
  "transformToObservable (Plain v) = Observable [v] Completes"
| "transformToObservable (Obs ob) = ob"

text \<open>
  \<open>Observable.toPromise\<close>: fulfilled with the last emitted value on completion
  (\<open>undefined\<close> when nothing was emitted), rejected on error.
\<close>

fun toPromise :: "observable \<Rightarrow> jsval promise" where
  "toPromise (Observable vs Completes) = Fulfilled (if vs = [] then JUndefined else last vs)"
| "toPromise (Observable vs (Errors e)) = Rejected e"
| "toPromise (Observable vs NeverEnds) = Pending"

section \<open>The response serializer\<close>

text \<open>
  Modelled from the spec: the class \<open>CodedRpcException\<close> (\<open>coded-error.ts\<close>) is not among
  the sources. The spec gives a coded error the fields \<open>code\<close>, \<open>message\<close> and an optional
  \<open>data\<close>; the handlers construct it as \<open>new CodedRpcException(message, code, data)\<close>.
  The third argument is \<open>JUndefined\<close> when the caller leaves it out.
\<close>

definition CodedRpcException :: "string \<Rightarrow> jsval \<Rightarrow> jsval \<Rightarrow> jsval" where
  "CodedRpcException message code data =
     JObj [(''message'', JStr message), (''code'', code), (''data'', data)]"

text \<open>
  The argument of \<open>serializeResponse\<close> is one of the two object literals \<open>{ value }\<close> and
  \<open>{ error }\<close>; the test \<open>"error" in response\<close> tells them apart.
\<close>

datatype outcome = Value jsval | Error jsval

text \<open>
  \<open>serializeResponse(id, response)\<close>. The error branch reads \<open>response.error.code\<close>,
  \<open>.data\<close> and \<open>.message\<close> in this order; the first read throws when the error is
  \<open>undefined\<close> or \<open>null\<close>, and the exception leaves the function (\<open>Inl\<close>).
\<close>

fun serializeResponse :: "jsval \<Rightarrow> outcome \<Rightarrow> jsval + jsval" where
  "serializeResponse i (Error err) =
     (case member err ''code'' of
        Inl ex \<Rightarrow> Inl ex
      | Inr code \<Rightarrow>
          (case member err ''data'' of
             Inl ex \<Rightarrow> Inl ex
           | Inr data \<Rightarrow>
               (case member err ''message'' of
                  Inl ex \<Rightarrow> Inl ex
                | Inr message \<Rightarrow>
                    Inr (JObj [(''jsonrpc'', JStr ''2.0''), (''id'', i),
                               (''error'', JObj [(''code'', js_or code (JNum 500)),
                                                 (''data'', data),
                                                 (''message'', message)])]))))"
| "serializeResponse i (Value v) =
     Inr (JObj [(''jsonrpc'', JStr ''2.0''), (''id'', i), (''result'', v)])"

section \<open>The request dispatcher\<close>

text \<open>
  The parsed request: the three members of \<open>req.body\<close> the route reads, and \<open>req.get\<close>,
  the accessor of the request's headers. The method is the key of the registry, a string;
  \<open>id\<close> and \<open>params\<close> are passed on as they are.
\<close>

record request =
  body_id :: jsval
  body_method :: string
  body_params :: jsval
  req_get :: "string \<Rightarrow> string option"

datatype JsonRpcContext = JsonRpcContext request

fun getMetadataByKey :: "JsonRpcContext \<Rightarrow> string \<Rightarrow> string option" where
  "getMetadataByKey (JsonRpcContext req) metadataKey = req_get req metadataKey"

text \<open>
  A registered handler is called with the parameters and the context and returns a
  promise. \<open>getHandlerByPattern\<close> is the framework's registry: \<open>None\<close> is its \<open>null\<close>.
\<close>

type_synonym handler = "jsval \<Rightarrow> JsonRpcContext \<Rightarrow> resolved promise"

type_synonym registry = "string \<Rightarrow> handler option"



text \<open>
  What one run of the route callback does: it writes a response with a status and a body,
  or an exception leaves the callback (the callback's promise is rejected and nothing is
  written), or an \<open>await\<close> never returns.
\<close>

datatype dispatch = Responded nat jsval | Escaped jsval | NoResponse

fun wrote_response :: "dispatch \<Rightarrow> bool" where
  "wrote_response (Responded st body) = True"
| "wrote_response d = False"

text \<open>\<open>res.status(200).json(serializeResponse(req.body.id, response))\<close>.\<close>

definition respond :: "request \<Rightarrow> outcome \<Rightarrow> dispatch" where
  "respond req response =
     (case serializeResponse (body_id req) response of
        Inl ex \<Rightarrow> Escaped ex
      | Inr envelope \<Rightarrow> Responded 200 envelope)"

text \<open>The callback mounted by \<open>listen\<close> on the POST route.\<close>

definition route_handler :: "registry \<Rightarrow> request \<Rightarrow> dispatch" where
  "route_handler getHandlerByPattern req =
     (case getHandlerByPattern (body_method req) of
        None \<Rightarrow>
          respond req
            (Error (CodedRpcException (''Method not found: '' @ body_method req) (JNum 404) JUndefined))
      | Some handler \<Rightarrow>
          (case handler (body_params req) (JsonRpcContext req) of
             Rejected ex \<Rightarrow> Escaped ex
           | Pending \<Rightarrow> NoResponse
           | Fulfilled r \<Rightarrow>
               (case toPromise (transformToObservable r) of
                  Fulfilled v \<Rightarrow> respond req (Value v)
                | Rejected e \<Rightarrow> respond req (Error e)
                | Pending \<Rightarrow> NoResponse)))"

section \<open>The lifecycle controller\<close>

text \<open>
  The options object. The two interfaces of the source are alternatives of a union type,
  but an options object may carry the fields of both; \<open>None\<close> is an absent field.
\<close>

datatype adapter = HostAdapter nat | ExpressAdapter

datatype httpserver = HttpServer adapter

record JsonRpcServerOptions =
  path :: string
  adapter :: "adapter option"
  port :: "nat option"
  hostname :: "string option"

text \<open>
  The calls the server makes on its collaborators, in order: creating its own adapter,
  mounting the route, binding a port, closing the listener, and calling \<open>listen\<close>'s
  callback.
\<close>

datatype effect =
    NewExpressAdapter
  | InitHttpServer
  | Post adapter string
  | Listen2 adapter nat
  | Listen3 adapter nat string
  | Close httpserver
  | Callback

record JsonRpcServer =
  options :: JsonRpcServerOptions
  server :: "httpserver option"
  effects :: "effect list"

text \<open>The constructor: \<open>server\<close> starts as \<open>null\<close>.\<close>

definition new_JsonRpcServer :: "JsonRpcServerOptions \<Rightarrow> JsonRpcServer" where
  "new_JsonRpcServer opts = \<lparr>options = opts, server = None, effects = []\<rparr>"

definition isHybrid :: "JsonRpcServerOptions \<Rightarrow> bool" where
  "isHybrid opts = (adapter opts \<noteq> None)"

definition isStandalone :: "JsonRpcServerOptions \<Rightarrow> bool" where
  "isStandalone opts = (port opts \<noteq> None)"

text \<open>
  What becomes of a completion callback \<open>cb\<close> handed to a function: it is called, as
  \<open>listen\<close> itself calls \<open>cb()\<close>, or it is never called.
\<close>

datatype cb_use = CbCalled | CbNotCalled

text \<open>
  Modelled from the spec: the helper \<open>invokeAsync\<close> (\<open>util.ts\<close>) is not among the
  sources. The spec has the listener's bind and close take a completion callback and
  exposes them to the caller as a single awaitable completion: the awaitable completes when
  the callback is called, and \<open>listen\<close> itself calls \<open>cb()\<close> where no listener would. A
  callback that is never called leaves it pending.
\<close>

fun invokeAsync :: "cb_use \<Rightarrow> unit promise" where
  "invokeAsync CbCalled = Fulfilled ()"
| "invokeAsync CbNotCalled = Pending"

text \<open>
  What the call \<open>app.listen(port, cb)\<close> or \<open>app.listen(port, hostname, cb)\<close> does: it
  throws (a port out of range, for one), or it returns a value, \<open>None\<close> when that is
  \<open>null\<close> or \<open>undefined\<close>, and the listener does with \<open>cb\<close> what the second component
  says.
\<close>

datatype app_listen = ListenThrows jsval | ListenReturns "httpserver option" cb_use

text \<open>
  \<open>listen(callback)\<close>. The argument \<open>bind\<close> is what \<open>app.listen\<close> does when it is
  called. The assignment \<open>this.server = app.listen(...)\<close> stores what the call returns and
  does not take place when the call throws; no \<open>try\<close> stands around the call, so the
  exception ends \<open>listen\<close>. The two reads \<open>this.options.adapter\<close> and
  \<open>this.options.port\<close> stand under the tests \<open>isHybrid\<close> and \<open>isStandalone\<close>, where the
  field is present.
\<close>

definition listen :: "app_listen \<Rightarrow> JsonRpcServer \<Rightarrow> unit promise \<times> JsonRpcServer" where
  "listen bind this =
     (let opts = options this;
          (app, s1) =
            (if isHybrid opts then (the (adapter opts), this)
             else
               (ExpressAdapter,
                this\<lparr>effects := effects this @ [NewExpressAdapter, InitHttpServer]\<rparr>));
          s2 = s1\<lparr>effects := effects s1 @ [Post app (path opts)]\<rparr>;
          (awaited, s3) =
            (if isStandalone opts then
               (let called =
                      (case hostname opts of
                         Some h \<Rightarrow> s2\<lparr>effects := effects s2 @ [Listen3 app (the (port opts)) h]\<rparr>
                       | None \<Rightarrow> s2\<lparr>effects := effects s2 @ [Listen2 app (the (port opts))]\<rparr>)
                in case bind of
                     ListenThrows ex \<Rightarrow> (Rejected ex, called)
                   | ListenReturns srv cb \<Rightarrow> (invokeAsync cb, called\<lparr>server := srv\<rparr>))
             else (invokeAsync CbCalled, s2))
      in case awaited of
           Fulfilled u \<Rightarrow> (Fulfilled (), s3\<lparr>effects := effects s3 @ [Callback]\<rparr>)
         | Rejected ex \<Rightarrow> (Rejected ex, s3)
         | Pending \<Rightarrow> (Pending, s3))"

text \<open>
  \<open>close()\<close>. The argument \<open>closed\<close> is what the listener does with the callback of
  \<open>server.close\<close>. When \<open>this.server\<close> is \<open>null\<close>, the conjunction
  \<open>this.server && this.server.close(cb)\<close> stops at its left operand and \<open>cb\<close> is handed
  to nobody.
\<close>

definition close :: "cb_use \<Rightarrow> JsonRpcServer \<Rightarrow> unit promise \<times> JsonRpcServer" where
  "close closed this =
     (if isStandalone (options this) then
        (case server this of
           None \<Rightarrow> (invokeAsync CbNotCalled, this)
         | Some srv \<Rightarrow> (invokeAsync closed, this\<lparr>effects := effects this @ [Close srv]\<rparr>))
      else (Fulfilled (), this))"

text \<open>
  A caller that awaits \<open>close()\<close> once for every element of the list, which gives the
  listener's answer to that call. The caller goes on to the next call only when the one
  before has completed.
\<close>

fun close_repeatedly :: "cb_use list \<Rightarrow> JsonRpcServer \<Rightarrow> unit promise \<times> JsonRpcServer" where
  "close_repeatedly [] this = (Fulfilled (), this)"
| "close_repeatedly (c # cs) this =
     (case close c this of
        (Fulfilled u, this') \<Rightarrow> close_repeatedly cs this'
      | (Rejected ex, this') \<Rightarrow> (Rejected ex, this')
      | (Pending, this') \<Rightarrow> (Pending, this'))"

section \<open>Properties of the values\<close>

lemma is_json_defined: "is_json v \<Longrightarrow> v \<noteq> JUndefined"
  by auto

lemma json_wire_is_json: "is_json v \<Longrightarrow> json_wire v = v"
proof (induction v)
  case (JArr xs)
  have "\<And>x. x \<in> set xs \<Longrightarrow> (if x = JUndefined then JNull else json_wire x) = x"
    using JArr by (auto simp: list_all_iff)
  then show ?case by (simp add: map_idI)
next
  case (JObj kvs)
  have keep: "filter (\<lambda>kv. snd kv \<noteq> JUndefined) kvs = kvs"
    using JObj.prems by (auto simp: list_all_iff intro!: filter_True)
  have "\<And>kv. kv \<in> set kvs \<Longrightarrow> (fst kv, json_wire (snd kv)) = kv"
  proof -
    fix kv assume in_kvs: "kv \<in> set kvs"
    then have "is_json (snd kv)" using JObj.prems by (simp add: list_all_iff)
    moreover have "snd kv \<in> Basic_BNFs.snds kv" by (cases kv) simp
    ultimately have "json_wire (snd kv) = snd kv" using JObj.IH in_kvs by blast
    then show "(fst kv, json_wire (snd kv)) = kv" by simp
  qed
  then have "map (\<lambda>kv. (fst kv, json_wire (snd kv))) kvs = kvs" by (simp add: map_idI)
  with keep show ?case by simp
qed simp_all

lemma has_key_json_wire:
  "has_key (json_wire (JObj kvs)) k \<longleftrightarrow> (\<exists>v. (k, v) \<in> set kvs \<and> v \<noteq> JUndefined)"
  by force

lemma member_total: "\<not> nullish e \<Longrightarrow> \<exists>v. member e k = Inr v"
  by (cases e) simp_all

section \<open>Properties of the serializer and the dispatcher\<close>

lemma serializeResponse_cases:
  assumes "serializeResponse i response = Inr env"
  shows "(\<exists>v. response = Value v \<and> env = JObj [(''jsonrpc'', JStr ''2.0''), (''id'', i), (''result'', v)])
       \<or> (\<exists>e c d m. response = Error e \<and> member e ''code'' = Inr c \<and> member e ''data'' = Inr d
             \<and> member e ''message'' = Inr m
             \<and> env = JObj [(''jsonrpc'', JStr ''2.0''), (''id'', i),
                (''error'', JObj [(''code'', js_or c (JNum 500)), (''data'', d), (''message'', m)])])"
  using assms by (cases response) (auto split: sum.splits)

lemma respond_Responded:
  assumes "respond req response = Responded st env"
  shows "st = 200 \<and> serializeResponse (body_id req) response = Inr env"
  using assms by (auto simp: respond_def split: sum.splits)

lemma route_handler_Responded:
  assumes "route_handler reg req = Responded st env"
  shows "\<exists>response. respond req response = Responded st env"
  using assms
  by (auto simp: route_handler_def split: option.splits promise.splits)

lemma route_handler_not_found:
  assumes "reg (body_method req) = None"
  shows "route_handler reg req =
     respond req (Error (CodedRpcException (''Method not found: '' @ body_method req) (JNum 404) JUndefined))"
  using assms by (simp add: route_handler_def)

lemma route_handler_stream_error:
  assumes "reg (body_method req) = Some handler"
    and "handler (body_params req) (JsonRpcContext req) = Fulfilled r"
    and "toPromise (transformToObservable r) = Rejected e"
    and "\<not> nullish e"
  shows "\<exists>c d m. member e ''code'' = Inr c \<and> member e ''data'' = Inr d
           \<and> member e ''message'' = Inr m
           \<and> route_handler reg req =
               Responded 200
                 (JObj [(''jsonrpc'', JStr ''2.0''), (''id'', body_id req),
                        (''error'', JObj [(''code'', js_or c (JNum 500)), (''data'', d),
                                          (''message'', m)])])"
proof -
  from assms(4) obtain c d m where mem: "member e ''code'' = Inr c"
    "member e ''data'' = Inr d" "member e ''message'' = Inr m"
    using member_total by blast
  have "route_handler reg req = respond req (Error e)"
    using assms(1,2,3) by (simp add: route_handler_def)
  with mem show ?thesis by (simp add: respond_def)
qed

lemma route_handler_stream_value:
  assumes "reg (body_method req) = Some handler"
    and "handler (body_params req) (JsonRpcContext req) = Fulfilled r"
    and "toPromise (transformToObservable r) = Fulfilled v"
  shows "route_handler reg req =
           Responded 200 (JObj [(''jsonrpc'', JStr ''2.0''), (''id'', body_id req), (''result'', v)])"
  using assms by (simp add: route_handler_def respond_def)








text \<open>
  Claim C3: for a request whose method is not in the registry the route responds with
  status 200 and an error envelope with \<open>error.code\<close> 404 and \<open>error.message\<close>
  \<open>"Method not found: "\<close> followed by the method name; the envelope has no \<open>result\<close>.
  On the wire the error object is the code and the message.
\<close>

theorem method_not_found_envelope:
  assumes "getHandlerByPattern (body_method req) = None"
  shows "route_handler getHandlerByPattern req =
           Responded 200
             (JObj [(''jsonrpc'', JStr ''2.0''), (''id'', body_id req),
                    (''error'', JObj [(''code'', JNum 404), (''data'', JUndefined),
                       (''message'', JStr (''Method not found: '' @ body_method req))])])
       \<and> member (json_wire
             (JObj [(''jsonrpc'', JStr ''2.0''), (''id'', body_id req),
                    (''error'', JObj [(''code'', JNum 404), (''data'', JUndefined),
                       (''message'', JStr (''Method not found: '' @ body_method req))])])) ''error''
           = Inr (JObj [(''code'', JNum 404),
                        (''message'', JStr (''Method not found: '' @ body_method req))])
       \<and> \<not> has_key (json_wire
             (JObj [(''jsonrpc'', JStr ''2.0''), (''id'', body_id req),
                    (''error'', JObj [(''code'', JNum 404), (''data'', JUndefined),
                       (''message'', JStr (''Method not found: '' @ body_method req))])])) ''result''"
  using assms
  by (simp add: route_handler_not_found respond_def CodedRpcException_def js_or_def)

theorem method_not_found_envelope_witness:
  "(\<lambda>m. if m = ''test.invoke'' then Some (\<lambda>params ctx. Fulfilled (Plain params)) else None)
      ''missing'' = None
   \<and> route_handler
       (\<lambda>m. if m = ''test.invoke'' then Some (\<lambda>params ctx. Fulfilled (Plain params)) else None)
       \<lparr>body_id = JStr ''2'', body_method = ''missing'', body_params = JUndefined,
          req_get = (\<lambda>k. None)\<rparr>
     = Responded 200
         (JObj [(''jsonrpc'', JStr ''2.0''), (''id'', JStr ''2''),
                (''error'', JObj [(''code'', JNum 404), (''data'', JUndefined),
                                  (''message'', JStr ''Method not found: missing'')])])"
  using method_not_found_envelope
    [of "\<lambda>m. if m = ''test.invoke'' then Some (\<lambda>params ctx. Fulfilled (Plain params)) else None"
        "\<lparr>body_id = JStr ''2'', body_method = ''missing'', body_params = JUndefined,
          req_get = (\<lambda>k. None)\<rparr>"]
  by simp

text \<open>
  Claim C4 says that a structured error with code \<open>C\<close> and data \<open>D\<close> always yields
  \<open>error.code === C\<close>. The serializer writes \<open>response.error.code || 500\<close>: a coded error
  with the code 0 is sent with the code 500.
\<close>

theorem structured_code_zero_counterexample:
  "member (CodedRpcException ''RPC EXCEPTION'' (JNum 0) (JStr ''Test Service'')) ''code'' = Inr (JNum 0)
   \<and> serializeResponse (JStr ''1'')
        (Error (CodedRpcException ''RPC EXCEPTION'' (JNum 0) (JStr ''Test Service'')))
      = Inr (JObj [(''jsonrpc'', JStr ''2.0''), (''id'', JStr ''1''),
                   (''error'', JObj [(''code'', JNum 500), (''data'', JStr ''Test Service''),
                                     (''message'', JStr ''RPC EXCEPTION'')])])
   \<and> JNum 500 \<noteq> JNum 0"
  by (simp add: CodedRpcException_def js_or_def)

text \<open>
  Claim C4, as the code has it: for a failure whose \<open>code\<close> is truthy (for a number, other
  than 0), the envelope's \<open>error\<close> has exactly the failure's \<open>code\<close>, \<open>data\<close> and
  \<open>message\<close>.
\<close>

theorem structured_error_fields_used:
  assumes "member err ''code'' = Inr c" and "truthy c"
    and "member err ''data'' = Inr d" and "member err ''message'' = Inr m"
  shows "serializeResponse i (Error err) =
     Inr (JObj [(''jsonrpc'', JStr ''2.0''), (''id'', i),
                (''error'', JObj [(''code'', c), (''data'', d), (''message'', m)])])"
  using assms by (simp add: js_or_def)

theorem structured_error_fields_used_witness:
  "truthy (JNum 403)
   \<and> serializeResponse (JStr ''1'')
        (Error (CodedRpcException ''RPC EXCEPTION'' (JNum 403)
                  (JObj [(''fromService'', JStr ''Test Service'')])))
      = Inr (JObj [(''jsonrpc'', JStr ''2.0''), (''id'', JStr ''1''),
                   (''error'', JObj [(''code'', JNum 403),
                                     (''data'', JObj [(''fromService'', JStr ''Test Service'')]),
                                     (''message'', JStr ''RPC EXCEPTION'')])])"
  using structured_error_fields_used
    [of "CodedRpcException ''RPC EXCEPTION'' (JNum 403) (JObj [(''fromService'', JStr ''Test Service'')])"
        "JNum 403" "JObj [(''fromService'', JStr ''Test Service'')]" "JStr ''RPC EXCEPTION''"
        "JStr ''1''"]
  by (simp add: CodedRpcException_def)

text \<open>
  Claim C5 says that a failure whose code is absent or falsy is sent with code 500, its
  description as the message, and no data. The serializer copies \<open>response.error.data\<close>
  whatever the code is: a failure without a code that carries data is sent with that data.
\<close>

theorem unstructured_data_counterexample:
  "member (JObj [(''message'', JStr ''quota exceeded''), (''data'', JNum 7)]) ''code'' = Inr JUndefined
   \<and> serializeResponse (JStr ''1'')
        (Error (JObj [(''message'', JStr ''quota exceeded''), (''data'', JNum 7)]))
      = Inr (JObj [(''jsonrpc'', JStr ''2.0''), (''id'', JStr ''1''),
                   (''error'', JObj [(''code'', JNum 500), (''data'', JNum 7),
                                     (''message'', JStr ''quota exceeded'')])])
   \<and> has_key (json_wire (JObj [(''code'', JNum 500), (''data'', JNum 7),
                                 (''message'', JStr ''quota exceeded'')])) ''data''"
  by (simp add: js_or_def)

text \<open>
  Claim C5, as the code has it: for a failure (other than \<open>undefined\<close> and \<open>null\<close>) whose
  \<open>code\<close> is absent or falsy, \<open>error.code\<close> is 500, \<open>error.message\<close> is the failure's
  \<open>message\<close> property and \<open>error.data\<close> is the failure's \<open>data\<close> property; the error
  object on the wire has a \<open>data\<close> field exactly when the failure's \<open>data\<close> is not
  \<open>undefined\<close>.
\<close>

theorem unstructured_failure_envelope:
  assumes "member err ''code'' = Inr c" and "\<not> truthy c"
    and "member err ''data'' = Inr d" and "member err ''message'' = Inr m"
  shows "serializeResponse i (Error err) =
           Inr (JObj [(''jsonrpc'', JStr ''2.0''), (''id'', i),
                (''error'', JObj [(''code'', JNum 500), (''data'', d), (''message'', m)])])
       \<and> has_key (json_wire (JObj [(''code'', JNum 500), (''data'', d), (''message'', m)])) ''data''
           = (d \<noteq> JUndefined)"
  using assms by (simp add: js_or_def)

theorem unstructured_failure_envelope_witness:
  "\<not> truthy JUndefined
   \<and> serializeResponse (JStr ''1'') (Error (TypeError ''Accidental server error''))
      = Inr (JObj [(''jsonrpc'', JStr ''2.0''), (''id'', JStr ''1''),
                   (''error'', JObj [(''code'', JNum 500), (''data'', JUndefined),
                                     (''message'', JStr ''Accidental server error'')])])
   \<and> \<not> has_key (json_wire (JObj [(''code'', JNum 500), (''data'', JUndefined),
                                   (''message'', JStr ''Accidental server error'')])) ''data''"
  using unstructured_failure_envelope
    [of "TypeError ''Accidental server error''" JUndefined JUndefined
        "JStr ''Accidental server error''" "JStr ''1''"]
  by (simp add: TypeError_def)

text \<open>
  Claim C6: the envelope the serializer returns has exactly one of the fields \<open>result\<close>
  and \<open>error\<close>. A success outcome, whatever its value and also when the value is
  \<open>undefined\<close>, gives an envelope with \<open>result\<close> and without \<open>error\<close>; a failure outcome
  gives an envelope with \<open>error\<close> and without \<open>result\<close>; and no envelope the serializer
  returns has both or neither.
\<close>

theorem envelope_has_exactly_one:
  "(\<exists>env. serializeResponse i (Value v) = Inr env
          \<and> has_key env ''result'' \<and> \<not> has_key env ''error'')
   \<and> (\<not> nullish e \<longrightarrow>
        (\<exists>env. serializeResponse i (Error e) = Inr env
              \<and> has_key env ''error'' \<and> \<not> has_key env ''result''))
   \<and> (\<forall>response env. serializeResponse i response = Inr env \<longrightarrow>
        (has_key env ''result'' \<longleftrightarrow> \<not> has_key env ''error''))"
proof (intro conjI impI allI)
  show "\<exists>env. serializeResponse i (Value v) = Inr env
          \<and> has_key env ''result'' \<and> \<not> has_key env ''error''"
    by simp
next
  assume "\<not> nullish e"
  then obtain c d m where "member e ''code'' = Inr c" "member e ''data'' = Inr d"
      "member e ''message'' = Inr m"
    using member_total by blast
  then show "\<exists>env. serializeResponse i (Error e) = Inr env
          \<and> has_key env ''error'' \<and> \<not> has_key env ''result''"
    by simp
next
  fix response env
  assume "serializeResponse i response = Inr env"
  from serializeResponse_cases [OF this]
  show "has_key env ''result'' \<longleftrightarrow> \<not> has_key env ''error''" by auto
qed

theorem envelope_has_exactly_one_witness:
  "\<not> nullish (CodedRpcException ''RPC EXCEPTION'' (JNum 403) JUndefined)
   \<and> (\<exists>env. serializeResponse (JStr ''1'') (Value JUndefined) = Inr env
          \<and> has_key env ''result'' \<and> \<not> has_key env ''error'')
   \<and> (\<exists>env. serializeResponse (JStr ''1'')
               (Error (CodedRpcException ''RPC EXCEPTION'' (JNum 403) JUndefined)) = Inr env
          \<and> has_key env ''error'' \<and> \<not> has_key env ''result'')
   \<and> serializeResponse (JStr ''1'') (Value JUndefined)
       = Inr (JObj [(''jsonrpc'', JStr ''2.0''), (''id'', JStr ''1''), (''result'', JUndefined)])
   \<and> (has_key (JObj [(''jsonrpc'', JStr ''2.0''), (''id'', JStr ''1''), (''result'', JUndefined)])
         ''result''
       \<longleftrightarrow> \<not> has_key (JObj [(''jsonrpc'', JStr ''2.0''), (''id'', JStr ''1''),
                               (''result'', JUndefined)]) ''error'')"
  using envelope_has_exactly_one
    [of "JStr ''1''" JUndefined "CodedRpcException ''RPC EXCEPTION'' (JNum 403) JUndefined"]
  by (simp add: CodedRpcException_def)

text \<open>
  Claim C7: the route answers a request with the request's \<open>id\<close> as the \<open>id\<close> of the
  envelope in each of the three cases. For an unknown method it writes an error envelope
  with that \<open>id\<close>; when the handler's observable completes with a value it writes a result
  envelope with that \<open>id\<close>; when the observable fails with an error object it writes an
  error envelope with that \<open>id\<close>. Whatever response the route writes carries the request's
  \<open>id\<close>, and for an \<open>id\<close> that JSON can carry the \<open>id\<close> on the wire is that same value.
\<close>

theorem response_id_echoed:
  "(getHandlerByPattern (body_method req) = None \<longrightarrow>
      (\<exists>env. route_handler getHandlerByPattern req = Responded 200 env
            \<and> member env ''id'' = Inr (body_id req)
            \<and> has_key env ''error''))
   \<and> (getHandlerByPattern (body_method req) = Some handler
      \<and> handler (body_params req) (JsonRpcContext req) = Fulfilled r
      \<and> toPromise (transformToObservable r) = Fulfilled v \<longrightarrow>
      (\<exists>env. route_handler getHandlerByPattern req = Responded 200 env
            \<and> member env ''id'' = Inr (body_id req)
            \<and> member env ''result'' = Inr v))
   \<and> (getHandlerByPattern (body_method req) = Some handler
      \<and> handler (body_params req) (JsonRpcContext req) = Fulfilled r
      \<and> toPromise (transformToObservable r) = Rejected e \<and> \<not> nullish e \<longrightarrow>
      (\<exists>env. route_handler getHandlerByPattern req = Responded 200 env
            \<and> member env ''id'' = Inr (body_id req)
            \<and> has_key env ''error''))
   \<and> (\<forall>st env. route_handler getHandlerByPattern req = Responded st env \<longrightarrow>
        member env ''id'' = Inr (body_id req)
        \<and> (is_json (body_id req) \<longrightarrow> member (json_wire env) ''id'' = Inr (body_id req)))"
proof -
  have not_found: "getHandlerByPattern (body_method req) = None \<longrightarrow>
      (\<exists>env. route_handler getHandlerByPattern req = Responded 200 env
            \<and> member env ''id'' = Inr (body_id req)
            \<and> has_key env ''error'')"
    by (simp add: route_handler_not_found respond_def CodedRpcException_def)
  have success: "getHandlerByPattern (body_method req) = Some handler
      \<and> handler (body_params req) (JsonRpcContext req) = Fulfilled r
      \<and> toPromise (transformToObservable r) = Fulfilled v \<longrightarrow>
      (\<exists>env. route_handler getHandlerByPattern req = Responded 200 env
            \<and> member env ''id'' = Inr (body_id req)
            \<and> member env ''result'' = Inr v)"
    by (simp add: route_handler_stream_value)
  have failure: "getHandlerByPattern (body_method req) = Some handler
      \<and> handler (body_params req) (JsonRpcContext req) = Fulfilled r
      \<and> toPromise (transformToObservable r) = Rejected e \<and> \<not> nullish e \<longrightarrow>
      (\<exists>env. route_handler getHandlerByPattern req = Responded 200 env
            \<and> member env ''id'' = Inr (body_id req)
            \<and> has_key env ''error'')"
  proof
    assume "getHandlerByPattern (body_method req) = Some handler
      \<and> handler (body_params req) (JsonRpcContext req) = Fulfilled r
      \<and> toPromise (transformToObservable r) = Rejected e \<and> \<not> nullish e"
    then have "\<exists>c d m. member e ''code'' = Inr c \<and> member e ''data'' = Inr d
           \<and> member e ''message'' = Inr m
           \<and> route_handler getHandlerByPattern req =
               Responded 200
                 (JObj [(''jsonrpc'', JStr ''2.0''), (''id'', body_id req),
                        (''error'', JObj [(''code'', js_or c (JNum 500)), (''data'', d),
                                          (''message'', m)])])"
      using route_handler_stream_error [of getHandlerByPattern req handler r e] by simp
    then show "\<exists>env. route_handler getHandlerByPattern req = Responded 200 env
            \<and> member env ''id'' = Inr (body_id req) \<and> has_key env ''error''"
      by auto
  qed
  have every: "\<forall>st env. route_handler getHandlerByPattern req = Responded st env \<longrightarrow>
        member env ''id'' = Inr (body_id req)
        \<and> (is_json (body_id req) \<longrightarrow> member (json_wire env) ''id'' = Inr (body_id req))"
  proof (intro allI impI)
    fix st env
    assume written: "route_handler getHandlerByPattern req = Responded st env"
    from route_handler_Responded [OF written] obtain response
      where "respond req response = Responded st env" by blast
    then have ser: "serializeResponse (body_id req) response = Inr env"
      using respond_Responded by blast
    from serializeResponse_cases [OF ser]
    show "member env ''id'' = Inr (body_id req)
        \<and> (is_json (body_id req) \<longrightarrow> member (json_wire env) ''id'' = Inr (body_id req))"
      by (auto simp: json_wire_is_json dest: is_json_defined)
  qed
  from not_found success failure every show ?thesis by (intro conjI)
qed

theorem response_id_echoed_witness:
  "route_handler
     (\<lambda>m. if m = ''test.invoke'' then Some (\<lambda>params ctx. Fulfilled (Plain params)) else None)
     \<lparr>body_id = JStr ''1'', body_method = ''test.invoke'',
        body_params = JObj [(''test'', JStr ''x'')], req_get = (\<lambda>k. None)\<rparr>
    = Responded 200
        (JObj [(''jsonrpc'', JStr ''2.0''), (''id'', JStr ''1''),
               (''result'', JObj [(''test'', JStr ''x'')])])
   \<and> is_json (JStr ''1'')
   \<and> member (json_wire (JObj [(''jsonrpc'', JStr ''2.0''), (''id'', JStr ''1''),
               (''result'', JObj [(''test'', JStr ''x'')])])) ''id'' = Inr (JStr ''1'')
   \<and> (\<exists>env. route_handler
          (\<lambda>m. if m = ''test.invoke'' then Some (\<lambda>params ctx. Fulfilled (Plain params)) else None)
          \<lparr>body_id = JStr ''2'', body_method = ''missing'', body_params = JUndefined,
             req_get = (\<lambda>k. None)\<rparr>
        = Responded 200 env \<and> member env ''id'' = Inr (JStr ''2'') \<and> has_key env ''error'')"
  using response_id_echoed
    [of "\<lambda>m. if m = ''test.invoke'' then Some (\<lambda>params ctx. Fulfilled (Plain params)) else None"
        "\<lparr>body_id = JStr ''1'', body_method = ''test.invoke'',
        body_params = JObj [(''test'', JStr ''x'')], req_get = (\<lambda>k. None)\<rparr>"
        "\<lambda>params ctx. Fulfilled (Plain params)"
        "Plain (JObj [(''test'', JStr ''x'')])"
        "JObj [(''test'', JStr ''x'')]"]
    response_id_echoed
    [of "\<lambda>m. if m = ''test.invoke'' then Some (\<lambda>params ctx. Fulfilled (Plain params)) else None"
        "\<lparr>body_id = JStr ''2'', body_method = ''missing'', body_params = JUndefined,
             req_get = (\<lambda>k. None)\<rparr>"]
  by (auto simp: route_handler_def respond_def)

text \<open>
  Claim C8: every response the route writes, success or error, has the HTTP status 200.
\<close>

theorem response_status_200:
  assumes "route_handler getHandlerByPattern req = Responded st env"
  shows "st = 200"
  using route_handler_Responded [OF assms] respond_Responded by blast

theorem response_status_200_witness:
  "\<exists>st. route_handler
     (\<lambda>m. if m = ''test.invoke'' then Some (\<lambda>params ctx. Fulfilled (Plain params)) else None)
     \<lparr>body_id = JStr ''2'', body_method = ''missing'', body_params = JUndefined,
        req_get = (\<lambda>k. None)\<rparr>
    = Responded st
        (JObj [(''jsonrpc'', JStr ''2.0''), (''id'', JStr ''2''),
               (''error'', JObj [(''code'', JNum 404), (''data'', JUndefined),
                                 (''message'', JStr ''Method not found: missing'')])])
    \<and> st = 200"
proof -
  have written: "route_handler
     (\<lambda>m. if m = ''test.invoke'' then Some (\<lambda>params ctx. Fulfilled (Plain params)) else None)
     \<lparr>body_id = JStr ''2'', body_method = ''missing'', body_params = JUndefined,
        req_get = (\<lambda>k. None)\<rparr>
    = Responded 200
        (JObj [(''jsonrpc'', JStr ''2.0''), (''id'', JStr ''2''),
               (''error'', JObj [(''code'', JNum 404), (''data'', JUndefined),
                                 (''message'', JStr ''Method not found: missing'')])])"
    by (simp add: route_handler_def respond_def CodedRpcException_def js_or_def)
  from response_status_200 [OF written] written show ?thesis by blast
qed

section \<open>Properties of the lifecycle\<close>

lemma close_not_standalone:
  "\<not> isStandalone (options this) \<Longrightarrow> close c this = (Fulfilled (), this)"
  by (simp add: close_def)

lemma close_no_server:
  "isStandalone (options this) \<Longrightarrow> server this = None \<Longrightarrow> close c this = (Pending, this)"
  by (simp add: close_def)

lemma close_owned:
  "isStandalone (options this) \<Longrightarrow> server this = Some srv \<Longrightarrow>
     close c this = (invokeAsync c, this\<lparr>effects := effects this @ [Close srv]\<rparr>)"
  by (simp add: close_def)

lemma close_repeatedly_not_standalone:
  "\<not> isStandalone (options this) \<Longrightarrow> close_repeatedly cs this = (Fulfilled (), this)"
  by (induction cs) (simp_all add: close_not_standalone)

lemma close_repeatedly_owned:
  "isStandalone (options this) \<Longrightarrow> server this = Some srv \<Longrightarrow> \<forall>c\<in>set cs. c = CbCalled \<Longrightarrow>
     close_repeatedly cs this =
       (Fulfilled (), this\<lparr>effects := effects this @ replicate (length cs) (Close srv)\<rparr>)"
proof (induction cs arbitrary: this)
  case Nil
  then show ?case by simp
next
  case (Cons c cs)
  let ?next = "this\<lparr>effects := effects this @ [Close srv]\<rparr>"
  have step: "close c this = (Fulfilled (), ?next)"
    using Cons.prems by (simp add: close_owned)
  have "close_repeatedly cs ?next =
      (Fulfilled (), ?next\<lparr>effects := effects ?next @ replicate (length cs) (Close srv)\<rparr>)"
    using Cons.prems by (intro Cons.IH) simp_all
  with step show ?case by (simp add: replicate_append_same)
qed

text \<open>
  Claim C2 says that \<open>close()\<close> on a standalone server that never listened completes
  without error. With \<open>this.server\<close> still \<open>null\<close>, \<open>close()\<close> awaits a completion whose
  callback was handed to nobody: whatever the listener would do, the call stays pending
  and the server is left as it was.
\<close>

theorem close_without_listen_never_completes:
  "close closed (new_JsonRpcServer \<lparr>path = ''/rpc/v1'', adapter = None, port = Some 8080, hostname = None\<rparr>)
   = (Pending, new_JsonRpcServer \<lparr>path = ''/rpc/v1'', adapter = None, port = Some 8080, hostname = None\<rparr>)"
  by (simp add: close_def isStandalone_def new_JsonRpcServer_def)

text \<open>
  Claim C9 says that \<open>close()\<close> may be called any number of times, in both modes, and
  completes without error. Without a configured port it does, and so it does on an owned
  listener that calls every callback (the two lemmas above). On a standalone server that
  never listened it does not: the first call and every later call await a completion
  whose callback was handed to nobody, none of them completes, and the server is left as
  it was.
\<close>

theorem close_again_without_listen_never_completes:
  "close c1 (new_JsonRpcServer \<lparr>path = ''/rpc/v1'', adapter = None, port = Some 8080, hostname = None\<rparr>)
     = (Pending, new_JsonRpcServer \<lparr>path = ''/rpc/v1'', adapter = None, port = Some 8080, hostname = None\<rparr>)
   \<and> close c2 (snd (close c1
        (new_JsonRpcServer \<lparr>path = ''/rpc/v1'', adapter = None, port = Some 8080, hostname = None\<rparr>)))
     = (Pending, new_JsonRpcServer \<lparr>path = ''/rpc/v1'', adapter = None, port = Some 8080, hostname = None\<rparr>)
   \<and> close_repeatedly [c1, c2]
        (new_JsonRpcServer \<lparr>path = ''/rpc/v1'', adapter = None, port = Some 8080, hostname = None\<rparr>)
     = (Pending, new_JsonRpcServer \<lparr>path = ''/rpc/v1'', adapter = None, port = Some 8080, hostname = None\<rparr>)"
  by (simp add: close_def isStandalone_def new_JsonRpcServer_def)

text \<open>
  Claim C10 says that options with both an adapter and a port make the server hybrid:
  nothing is bound and \<open>this.server\<close> stays \<open>null\<close>. \<open>listen\<close> tests \<open>isStandalone\<close> on
  its own, after the adapter was chosen: \<open>listen\<close> of the supplied adapter is called with
  the port, and the server it returns is stored.
\<close>

theorem adapter_and_port_counterexample:
  "adapter \<lparr>path = ''/rpc/v1'', adapter = Some (HostAdapter 0), port = Some 8080, hostname = None\<rparr> \<noteq> None
   \<and> port \<lparr>path = ''/rpc/v1'', adapter = Some (HostAdapter 0), port = Some 8080, hostname = None\<rparr> \<noteq> None
   \<and> server (snd (listen (ListenReturns (Some (HttpServer (HostAdapter 0))) CbCalled)
        (new_JsonRpcServer
          \<lparr>path = ''/rpc/v1'', adapter = Some (HostAdapter 0), port = Some 8080, hostname = None\<rparr>)))
      = Some (HttpServer (HostAdapter 0))
   \<and> Some (HttpServer (HostAdapter 0)) \<noteq> None
   \<and> Listen2 (HostAdapter 0) 8080 \<in> set (effects (snd
        (listen (ListenReturns (Some (HttpServer (HostAdapter 0))) CbCalled)
          (new_JsonRpcServer
            \<lparr>path = ''/rpc/v1'', adapter = Some (HostAdapter 0), port = Some 8080, hostname = None\<rparr>))))"
  by (simp add: listen_def new_JsonRpcServer_def isHybrid_def isStandalone_def)

text \<open>
  Claim C10, as the code has it: with both an adapter and a port, \<open>listen\<close> takes the
  hybrid branch first and uses the supplied adapter (no adapter is created), mounts the
  route on it, then calls its \<open>listen\<close> with the configured port (and hostname, when
  given) and stores in \<open>this.server\<close> what that call returns; \<open>this.server\<close> stays \<open>null\<close>
  only when the call throws or returns nothing.
\<close>

theorem listen_adapter_and_port:
  assumes "adapter opts = Some a" and "port opts = Some p"
  shows "isHybrid opts \<and> isStandalone opts
       \<and> effects (snd (listen bind (new_JsonRpcServer opts))) =
           [Post a (path opts),
            (case hostname opts of Some h \<Rightarrow> Listen3 a p h | None \<Rightarrow> Listen2 a p)]
           @ (if (\<exists>srv. bind = ListenReturns srv CbCalled) then [Callback] else [])
       \<and> server (snd (listen bind (new_JsonRpcServer opts))) =
           (case bind of ListenThrows ex \<Rightarrow> None | ListenReturns srv cb \<Rightarrow> srv)"
proof (cases bind)
  case (ListenThrows ex)
  with assms show ?thesis
    by (cases "hostname opts")
       (simp_all add: listen_def new_JsonRpcServer_def isHybrid_def isStandalone_def)
next
  case (ListenReturns srv cb)
  with assms show ?thesis
    by (cases cb; cases "hostname opts")
       (simp_all add: listen_def new_JsonRpcServer_def isHybrid_def isStandalone_def)
qed

theorem listen_adapter_and_port_witness:
  "server (snd (listen (ListenReturns (Some (HttpServer (HostAdapter 0))) CbCalled)
        (new_JsonRpcServer
          \<lparr>path = ''/rpc/v1'', adapter = Some (HostAdapter 0), port = Some 8080, hostname = None\<rparr>)))
      = Some (HttpServer (HostAdapter 0))
   \<and> effects (snd (listen (ListenReturns (Some (HttpServer (HostAdapter 0))) CbCalled)
        (new_JsonRpcServer
          \<lparr>path = ''/rpc/v1'', adapter = Some (HostAdapter 0), port = Some 8080, hostname = None\<rparr>)))
      = [Post (HostAdapter 0) ''/rpc/v1'', Listen2 (HostAdapter 0) 8080, Callback]
   \<and> server (snd (listen (ListenThrows (JStr ''ERR_SOCKET_BAD_PORT''))
        (new_JsonRpcServer
          \<lparr>path = ''/rpc/v1'', adapter = Some (HostAdapter 0), port = Some 70000, hostname = None\<rparr>)))
      = None"
  using listen_adapter_and_port
    [of "\<lparr>path = ''/rpc/v1'', adapter = Some (HostAdapter 0), port = Some 8080, hostname = None\<rparr>"
        "HostAdapter 0" 8080 "ListenReturns (Some (HttpServer (HostAdapter 0))) CbCalled"]
    listen_adapter_and_port
    [of "\<lparr>path = ''/rpc/v1'', adapter = Some (HostAdapter 0), port = Some 70000, hostname = None\<rparr>"
        "HostAdapter 0" 70000 "ListenThrows (JStr ''ERR_SOCKET_BAD_PORT'')"]
  by simp

end
